theory Spec2Isabelle
  imports Main "HOL-Library.Finite_Map" "HOL-Library.Sublist"
begin

section \<open>The ledger of app.py: data model\<close>

text \<open>
  A Python \<open>str\<close> is modelled by its UTF-8 encoding, a list of bytes (\<^typ>\<open>string\<close>).
  The encoding is injective, the empty string is the only falsy one, and the byte of
  \<open>-\<close> occurs in an encoding only where the character \<open>-\<close> stands, so that equality,
  truthiness and \<open>split("-")\<close> on the bytes are those on the characters. The two
  category literals of the source are not ASCII and are written byte by byte.
\<close>

definition Income :: string where
  "Income = [CHR 0xD0, CHR 0x94, CHR 0xD0, CHR 0xBE, CHR 0xD1, CHR 0x85,
             CHR 0xD0, CHR 0xBE, CHR 0xD0, CHR 0xB4]"

definition Expense :: string where
  "Expense = [CHR 0xD0, CHR 0xA0, CHR 0xD0, CHR 0xB0, CHR 0xD1, CHR 0x81,
              CHR 0xD1, CHR 0x85, CHR 0xD0, CHR 0xBE, CHR 0xD0, CHR 0xB4]"

text \<open>
  Class \<open>Record\<close>: the four attributes set by \<open>__init__\<close>, with the types of its
  annotations (\<open>date: str, category: str, price: int, description: str\<close>).
\<close>

record Record =
  date :: string
  category :: string
  price :: int
  description :: string

text \<open>Class \<open>MyCash\<close>: the attributes set by \<open>__init__\<close>.\<close>

record MyCash =
  filepath :: string
  records :: "Record list"

text \<open>
  The exceptions that leave the methods. \<open>FileNotFoundError\<close> is caught inside
  \<open>load_data\<close> and never leaves it. \<open>Untyped\<close> is not an exception of the source: it
  marks the runs of \<open>load_data\<close> in which \<open>Record(**record)\<close> receives a value that
  contradicts the annotations of \<open>Record.__init__\<close>. The source performs no check there
  and stores the value; the typed \<^typ>\<open>Record\<close> cannot hold it, and the model stops.
\<close>

datatype error = IndexError | TypeError | JSONDecodeError | Untyped

subsection \<open>Storage\<close>

text \<open>
  What \<open>json.load\<close> returns: \<open>None\<close>, \<open>bool\<close>, \<open>int\<close>, \<open>float\<close>, \<open>str\<close>, \<open>list\<close> and
  \<open>dict\<close> with \<open>str\<close> keys. A \<open>dict\<close> is a finite map: the source passes it as keyword
  arguments only, where the order of the keys plays no role.
\<close>

datatype pyfloat = Float int int | Infinity | NegInfinity | NaN

datatype json =
    JNull
  | JBool bool
  | JInt int
  | JFloat pyfloat
  | JStr string
  | JArr "json list"
  | JObj "(string, json) fmap"

text \<open>
  A file is modelled by what \<open>json.load\<close> does with its text: it raises
  \<open>json.JSONDecodeError\<close> (\<open>Undecodable\<close>; bytes that are not UTF-8 raise likewise, a
  \<open>ValueError\<close> as well) or returns a value (\<open>Document\<close>). Writing a value
  with \<open>json.dump\<close> leaves a file that decodes to that value; the text in between
  belongs to the \<open>json\<close> library, not to this program. The file system maps paths to
  files: opening an unmapped path for reading raises \<open>FileNotFoundError\<close>, opening for
  writing creates or truncates. Other I/O failures are not modelled.
\<close>

datatype contents = Undecodable | Document json

type_synonym storage = "string \<rightharpoonup> contents"

text \<open>The state a method works on: the files and the \<open>MyCash\<close> object \<open>self\<close>.\<close>

type_synonym state = "storage \<times> MyCash"

section \<open>The methods of MyCash\<close>

subsection \<open>save_data\<close>

text \<open>
  \<open>record.__dict__\<close>: the attributes in the order \<open>__init__\<close> assigns them.
\<close>

definition Record_dict :: "Record \<Rightarrow> json" where
  "Record_dict r =
     JObj (fmupd ''date'' (JStr (date r))
          (fmupd ''category'' (JStr (category r))
          (fmupd ''price'' (JInt (price r))
          (fmupd ''description'' (JStr (description r)) fmempty))))"

definition save_data :: "state \<Rightarrow> (error + unit) \<times> state" where
  "save_data = (\<lambda>(fs, self).
     let data = JArr (map Record_dict (records self))
     in (Inr (), (fs(filepath self \<mapsto> Document data), self)))"

subsection \<open>load_data\<close>

text \<open>
  \<open>Record(**record)\<close>: \<open>record\<close> must be a mapping (\<open>TypeError\<close> otherwise) whose keys are
  exactly the four parameters of \<open>Record.__init__\<close> (a missing or an unexpected keyword
  raises \<open>TypeError\<close>).
\<close>

definition Record_kwargs :: "json \<Rightarrow> error + Record" where
  "Record_kwargs record =
     (case record of
        JObj d \<Rightarrow>
          if fmdom d = {|''date'', ''category'', ''price'', ''description''|} then
            (case (fmlookup d ''date'', fmlookup d ''category'',
                   fmlookup d ''price'', fmlookup d ''description'') of
               (Some (JStr a), Some (JStr c), Some (JInt p), Some (JStr s)) \<Rightarrow>
                 Inr \<lparr>date = a, category = c, price = p, description = s\<rparr>
             | _ \<Rightarrow> Inl Untyped)
          else Inl TypeError
      | _ \<Rightarrow> Inl TypeError)"

text \<open>
  The loop \<open>for record in data: self.records.append(Record(**record))\<close> over the items
  of a list. An exception leaves the records appended so far in place.
\<close>

fun load_loop :: "json list \<Rightarrow> Record list \<Rightarrow> (error + unit) \<times> Record list" where
  "load_loop [] rs = (Inr (), rs)"
| "load_loop (record # rest) rs =
     (case Record_kwargs record of
        Inl e \<Rightarrow> (Inl e, rs)
      | Inr r \<Rightarrow> load_loop rest (rs @ [r]))"

text \<open>
  \<open>for record in data\<close> on each kind of value: a list yields its items; a \<open>str\<close> yields
  one-character strings and a \<open>dict\<close> its keys, which are strings, so that the first
  \<open>Record(**record)\<close> raises \<open>TypeError\<close> before anything is appended, and an empty
  \<open>str\<close> or \<open>dict\<close> yields nothing; \<open>None\<close>, \<open>bool\<close>, \<open>int\<close> and \<open>float\<close> are not
  iterable (\<open>TypeError\<close>).
\<close>

fun load_items :: "json \<Rightarrow> Record list \<Rightarrow> (error + unit) \<times> Record list" where
  "load_items (JArr items) rs = load_loop items rs"
| "load_items (JStr s) rs = (if s = [] then (Inr (), rs) else (Inl TypeError, rs))"
| "load_items (JObj d) rs = (if d = fmempty then (Inr (), rs) else (Inl TypeError, rs))"
| "load_items _ rs = (Inl TypeError, rs)"

definition load_data :: "state \<Rightarrow> (error + unit) \<times> state" where
  "load_data = (\<lambda>(fs, self).
     case fs (filepath self) of
       None \<Rightarrow> (Inr (), (fs, self\<lparr>records := []\<rparr>))
     | Some Undecodable \<Rightarrow> (Inl JSONDecodeError, (fs, self))
     | Some (Document data) \<Rightarrow>
         (case load_items data (records self) of
            (res, rs) \<Rightarrow> (res, (fs, self\<lparr>records := rs\<rparr>))))"

text \<open>\<open>MyCash.__init__\<close>: the path from the user name, no records, then \<open>load_data\<close>.\<close>

definition MyCash_init :: "string \<Rightarrow> storage \<Rightarrow> (error + unit) \<times> state" where
  "MyCash_init username fs =
     load_data (fs, \<lparr>filepath = username @ ''.json'', records = []\<rparr>)"

subsection \<open>add_record\<close>

definition add_record :: "string \<Rightarrow> string \<Rightarrow> int \<Rightarrow> string \<Rightarrow> state \<Rightarrow> (error + unit) \<times> state" where
  "add_record d c p s = (\<lambda>(fs, self).
     save_data (fs, self\<lparr>records := records self @
       [\<lparr>date = d, category = c, price = p, description = s\<rparr>]\<rparr>))"

subsection \<open>edit_record\<close>

text \<open>
  \<open>self.records[record_id]\<close>: a negative index counts from the end; an index that is
  still out of range raises \<open>IndexError\<close>.
\<close>

definition list_getitem :: "'a list \<Rightarrow> int \<Rightarrow> error + nat" where
  "list_getitem xs i =
     (let n = int (length xs);
          j = (if i < 0 then i + n else i)
      in if 0 \<le> j \<and> j < n then Inr (nat j) else Inl IndexError)"

text \<open>
  The optional parameters default to \<open>None\<close>; \<open>if date:\<close> holds for a \<open>str\<close> other than
  the empty one and \<open>if price:\<close> for an \<open>int\<close> other than 0.
\<close>

fun truthy_str :: "string option \<Rightarrow> bool" where
  "truthy_str None = False"
| "truthy_str (Some s) = (s \<noteq> [])"

fun truthy_int :: "int option \<Rightarrow> bool" where
  "truthy_int None = False"
| "truthy_int (Some n) = (n \<noteq> 0)"

definition edit_fields :: "string option \<Rightarrow> string option \<Rightarrow> int option \<Rightarrow> string option \<Rightarrow> Record \<Rightarrow> Record" where
  "edit_fields d c p s record =
     (let record = (if truthy_str d then record\<lparr>date := the d\<rparr> else record);
          record = (if truthy_str c then record\<lparr>category := the c\<rparr> else record);
          record = (if truthy_int p then record\<lparr>price := the p\<rparr> else record);
          record = (if truthy_str s then record\<lparr>description := the s\<rparr> else record)
      in record)"

text \<open>
  The assignments go to the object at the index. Every entry of \<open>self.records\<close> is an
  object of its own (\<open>add_record\<close> and \<open>load_data\<close> construct one \<open>Record\<close> per entry),
  so that no other entry changes with it: the list is updated at that index. An
  \<open>IndexError\<close> leaves the method before anything is assigned or saved.
\<close>

definition edit_record :: "int \<Rightarrow> string option \<Rightarrow> string option \<Rightarrow> int option \<Rightarrow> string option \<Rightarrow> state \<Rightarrow> (error + unit) \<times> state" where
  "edit_record record_id d c p s = (\<lambda>(fs, self).
     case list_getitem (records self) record_id of
       Inl e \<Rightarrow> (Inl e, (fs, self))
     | Inr k \<Rightarrow>
         save_data (fs, self\<lparr>records :=
           (records self)[k := edit_fields d c p s (records self ! k)]\<rparr>))"

subsection \<open>search_records\<close>

text \<open>\<open>str.split(sep)\<close> with a one-character separator; the result is never empty.\<close>

fun split :: "char \<Rightarrow> string \<Rightarrow> string list" where
  "split sep [] = [[]]"
| "split sep (c # cs) =
     (if c = sep then [] # split sep cs
      else (case split sep cs of
              part # parts \<Rightarrow> (c # part) # parts
            | [] \<Rightarrow> [[c]]))"

text \<open>
  The three tests of the loop body; each one holding means \<open>continue\<close>.
\<close>

definition category_differs :: "string option \<Rightarrow> Record \<Rightarrow> bool" where
  "category_differs c record \<longleftrightarrow> truthy_str c \<and> the c \<noteq> category record"

definition date_differs :: "string option \<Rightarrow> Record \<Rightarrow> bool" where
  "date_differs d record \<longleftrightarrow>
     truthy_str d \<and>
     (let record_date_parts = split CHR ''-'' (date record);
          input_date_parts = split CHR ''-'' (the d)
      in take (length input_date_parts) record_date_parts \<noteq> input_date_parts)"

definition price_differs :: "int option \<Rightarrow> Record \<Rightarrow> bool" where
  "price_differs p record \<longleftrightarrow> truthy_int p \<and> the p \<noteq> price record"

fun search_loop :: "string option \<Rightarrow> string option \<Rightarrow> int option \<Rightarrow> Record list \<Rightarrow> Record list \<Rightarrow> Record list" where
  "search_loop c d p [] results = results"
| "search_loop c d p (record # rest) results =
     (if category_differs c record then search_loop c d p rest results
      else if date_differs d record then search_loop c d p rest results
      else if price_differs p record then search_loop c d p rest results
      else search_loop c d p rest (results @ [record]))"

definition search_records :: "string option \<Rightarrow> string option \<Rightarrow> int option \<Rightarrow> MyCash \<Rightarrow> Record list" where
  "search_records c d p self = search_loop c d p (records self) []"

subsection \<open>display_balance\<close>

text \<open>The builtin \<open>sum\<close>: a loop that adds each item to an accumulator starting at 0.\<close>

definition py_sum :: "int list \<Rightarrow> int" where
  "py_sum xs = foldl (+) 0 xs"

definition display_balance :: "MyCash \<Rightarrow> int \<times> int \<times> int" where
  "display_balance self =
     (let income = py_sum (map price (filter (\<lambda>record. category record = Income) (records self)));
          expense = py_sum (map price (filter (\<lambda>record. category record = Expense) (records self)));
          balance = income - expense
      in (balance, income, expense))"

section \<open>Notions of the specification\<close>

text \<open>
  The sum of the amounts of the records of one category, over the positions of the
  sequence.
\<close>

definition total :: "string \<Rightarrow> Record list \<Rightarrow> int" where
  "total c rs = (\<Sum>i | i < length rs \<and> category (rs ! i) = c. price (rs ! i))"

text \<open>
  A record matches the supplied criteria: the category and the amount by equality, the
  date by its leading components; an absent criterion (\<open>None\<close>) matches everything.
\<close>

definition matches_supplied :: "string option \<Rightarrow> string option \<Rightarrow> int option \<Rightarrow> Record \<Rightarrow> bool" where
  "matches_supplied c d p record \<longleftrightarrow>
     (case c of None \<Rightarrow> True | Some v \<Rightarrow> category record = v) \<and>
     (case d of None \<Rightarrow> True
      | Some q \<Rightarrow> prefix (split CHR ''-'' q) (split CHR ''-'' (date record))) \<and>
     (case p of None \<Rightarrow> True | Some n \<Rightarrow> price record = n)"

text \<open>A criterion that is empty or zero counts as absent.\<close>

definition drop_falsy_str :: "string option \<Rightarrow> string option" where
  "drop_falsy_str c = (if truthy_str c then c else None)"

definition drop_falsy_int :: "int option \<Rightarrow> int option" where
  "drop_falsy_int p = (if truthy_int p then p else None)"

text \<open>
  The persisted format of the specification: an array of objects, each with exactly
  the fields \<open>date\<close> (string), \<open>category\<close> (string), \<open>price\<close> (integer) and
  \<open>description\<close> (string). The restriction of \<open>category\<close> to the two literals is left
  out, so that fewer files count as malformed.
\<close>

definition well_formed_entry :: "json \<Rightarrow> bool" where
  "well_formed_entry entry =
     (case entry of
        JObj d \<Rightarrow>
          fmdom d = {|''date'', ''category'', ''price'', ''description''|} \<and>
          (case fmlookup d ''date'' of Some (JStr _) \<Rightarrow> True | _ \<Rightarrow> False) \<and>
          (case fmlookup d ''category'' of Some (JStr _) \<Rightarrow> True | _ \<Rightarrow> False) \<and>
          (case fmlookup d ''price'' of Some (JInt _) \<Rightarrow> True | _ \<Rightarrow> False) \<and>
          (case fmlookup d ''description'' of Some (JStr _) \<Rightarrow> True | _ \<Rightarrow> False)
      | _ \<Rightarrow> False)"

fun well_formed :: "contents \<Rightarrow> bool" where
  "well_formed (Document (JArr entries)) = list_all well_formed_entry entries"
| "well_formed _ = False"

subsection \<open>Auxiliary functions of the proofs\<close>

text \<open>The inverse of \<^const>\<open>split\<close>, as \<open>sep.join(parts)\<close>.\<close>

fun join :: "char \<Rightarrow> string list \<Rightarrow> string" where
  "join sep [] = []"
| "join sep [part] = part"
| "join sep (part # parts) = part @ sep # join sep parts"

text \<open>The records the loop of \<open>search_records\<close> appends to its results.\<close>

definition keeps :: "string option \<Rightarrow> string option \<Rightarrow> int option \<Rightarrow> Record \<Rightarrow> bool" where
  "keeps c d p record \<longleftrightarrow>
     \<not> category_differs c record \<and> \<not> date_differs d record \<and> \<not> price_differs p record"

section \<open>Properties\<close>

subsection \<open>Sums\<close>

lemma foldl_plus_sum_list: "foldl (+) a xs = (a::int) + sum_list xs"
  by (induction xs arbitrary: a) simp_all

lemma py_sum_sum_list: "py_sum xs = sum_list xs"
  by (simp add: py_sum_def foldl_plus_sum_list)

lemma sum_list_filter_index:
  "sum_list (map f (filter P xs)) = (\<Sum>i | i < length xs \<and> P (xs ! i). (f (xs ! i) :: int))"
proof -
  have "sum_list (map f (filter P xs)) = sum_list (map (\<lambda>x. if P x then f x else 0) xs)"
    by (rule sum_list_map_filter')
  also have "\<dots> = (\<Sum>i = 0..<length xs. if P (xs ! i) then f (xs ! i) else 0)"
    by (simp add: sum_list_sum_nth)
  also have "\<dots> = (\<Sum>i \<in> {i \<in> {0..<length xs}. P (xs ! i)}. f (xs ! i))"
    by (rule sum.inter_filter [symmetric]) simp
  also have "\<dots> = (\<Sum>i | i < length xs \<and> P (xs ! i). f (xs ! i))"
    by (rule arg_cong [where f = "sum (\<lambda>i. f (xs ! i))"]) auto
  finally show ?thesis .
qed

lemma display_balance_total:
  "display_balance self =
     (total Income (records self) - total Expense (records self),
      total Income (records self), total Expense (records self))"
  by (simp add: display_balance_def Let_def py_sum_sum_list sum_list_filter_index total_def)

lemma Income_neq_Expense: "Income \<noteq> Expense"
  by (simp add: Income_def Expense_def)

lemma Expense_not_Nil: "Expense \<noteq> []"
  by (simp add: Expense_def)

text \<open>
  C1. \<open>display_balance\<close> returns (balance, income, expense): income is the sum of the
  prices of the records whose category is the income literal, expense the sum for the
  expense literal, and balance their difference. With no records it returns (0, 0, 0).
  After adding an income of 30000 and an expense of 1500 to a store with no records it
  returns (28500, 30000, 1500).
\<close>

theorem display_balance_totals:
  "display_balance self =
     (total Income (records self) - total Expense (records self),
      total Income (records self), total Expense (records self))
   \<and> display_balance (self\<lparr>records := []\<rparr>) = (0, 0, 0)
   \<and> display_balance (snd (snd (add_record ''2024-05-03'' Expense 1500 ''Groceries''
          (snd (add_record ''2024-05-02'' Income 30000 ''Salary''
             (fs, self\<lparr>records := []\<rparr>)))))) = (28500, 30000, 1500)"
proof (intro conjI)
  show "display_balance self =
     (total Income (records self) - total Expense (records self),
      total Income (records self), total Expense (records self))"
    by (rule display_balance_total)
  show "display_balance (self\<lparr>records := []\<rparr>) = (0, 0, 0)"
    by (simp add: display_balance_def py_sum_def)
  show "display_balance (snd (snd (add_record ''2024-05-03'' Expense 1500 ''Groceries''
          (snd (add_record ''2024-05-02'' Income 30000 ''Salary''
             (fs, self\<lparr>records := []\<rparr>)))))) = (28500, 30000, 1500)"
    using Income_neq_Expense
    by (simp add: add_record_def save_data_def display_balance_def py_sum_def Let_def)
qed

subsection \<open>Splitting a date\<close>

lemma split_not_Nil: "split sep s \<noteq> []"
  by (induction s) (auto split: list.splits)

lemma split_no_sep: "sep \<notin> set s \<Longrightarrow> split sep s = [s]"
  by (induction s) auto

lemma split_append_sep: "sep \<notin> set y \<Longrightarrow> split sep (y @ sep # rest) = y # split sep rest"
  by (induction y) auto

lemma join_Cons_Cons: "join sep ((c # part) # parts) = c # join sep (part # parts)"
  by (cases parts) simp_all

lemma join_split: "join sep (split sep s) = s"
proof (induction s)
  case Nil
  show ?case by simp
next
  case (Cons c cs)
  obtain part parts where ps: "split sep cs = part # parts"
    using split_not_Nil [of sep cs] by (cases "split sep cs") auto
  show ?case
  proof (cases "c = sep")
    case True
    with Cons ps show ?thesis by simp
  next
    case False
    with Cons ps show ?thesis by (simp add: join_Cons_Cons)
  qed
qed

lemma split_inject: "split sep a = split sep b \<Longrightarrow> a = b"
  by (metis join_split)

lemma take_length_eq_prefix: "take (length qs) rs = qs \<longleftrightarrow> prefix qs rs"
  by (metis append_eq_conv_conj prefix_def)

lemma full_date_exact:
  assumes "length (split sep r) = length (split sep q)"
  shows "take (length (split sep q)) (split sep r) = split sep q \<longleftrightarrow> r = q"
  using assms split_inject [of sep r q] by auto

subsection \<open>The loop of search_records\<close>

lemma search_loop_filter:
  "search_loop c d p rs results = results @ filter (keeps c d p) rs"
  by (induction rs arbitrary: results) (simp_all add: keeps_def)

lemma search_records_filter:
  "search_records c d p self = filter (keeps c d p) (records self)"
  by (simp add: search_records_def search_loop_filter)

lemma date_differs_prefix:
  "q \<noteq> [] \<Longrightarrow>
   date_differs (Some q) r \<longleftrightarrow> \<not> prefix (split CHR ''-'' q) (split CHR ''-'' (date r))"
  by (simp add: date_differs_def Let_def take_length_eq_prefix)

lemma date_differs_None: "\<not> date_differs None r"
  by (simp add: date_differs_def)

lemma search_records_date_filter:
  assumes "q \<noteq> []"
  shows "search_records c (Some q) p self =
     filter (\<lambda>r. prefix (split CHR ''-'' q) (split CHR ''-'' (date r)))
       (search_records c None p self)"
  using assms
  by (auto simp add: search_records_filter keeps_def date_differs_prefix date_differs_None
      intro: filter_cong)

lemma search_records_date_only:
  assumes "q \<noteq> []"
  shows "search_records None (Some q) None self =
     filter (\<lambda>r. take (length (split CHR ''-'' q)) (split CHR ''-'' (date r)) = split CHR ''-'' q)
       (records self)"
  using assms
  by (simp add: search_records_filter keeps_def [abs_def] category_differs_def
      price_differs_def date_differs_def Let_def)

lemma keeps_matches:
  "keeps c d p r \<longleftrightarrow>
     matches_supplied (drop_falsy_str c) (drop_falsy_str d) (drop_falsy_int p) r"
proof -
  have c: "\<not> category_differs c r \<longleftrightarrow>
      (case drop_falsy_str c of None \<Rightarrow> True | Some v \<Rightarrow> category r = v)"
    by (cases c) (auto simp add: category_differs_def drop_falsy_str_def)
  have d: "\<not> date_differs d r \<longleftrightarrow>
      (case drop_falsy_str d of None \<Rightarrow> True
       | Some q \<Rightarrow> prefix (split CHR ''-'' q) (split CHR ''-'' (date r)))"
    by (cases d)
      (auto simp add: date_differs_def Let_def take_length_eq_prefix drop_falsy_str_def)
  have p: "\<not> price_differs p r \<longleftrightarrow>
      (case drop_falsy_int p of None \<Rightarrow> True | Some n \<Rightarrow> price r = n)"
    by (cases p) (auto simp add: price_differs_def drop_falsy_int_def)
  show ?thesis
    unfolding keeps_def matches_supplied_def c d p ..
qed

lemma search_records_empty_date:
  "search_records c (Some []) p self = search_records c None p self"
  by (simp add: search_records_filter keeps_def [abs_def] date_differs_def)

lemma search_records_full_date:
  assumes "CHR ''-'' \<notin> set y" and "CHR ''-'' \<notin> set m" and "CHR ''-'' \<notin> set d"
  shows "search_records None (Some (y @ ''-'' @ m @ ''-'' @ d)) None self =
     filter (\<lambda>r. take 3 (split CHR ''-'' (date r)) = [y, m, d]) (records self)"
  using assms
  by (simp add: search_records_date_only split_append_sep split_no_sep numeral_3_eq_3)

lemma three_components_exact:
  assumes "CHR ''-'' \<notin> set y" and "CHR ''-'' \<notin> set m" and "CHR ''-'' \<notin> set d"
    and "length (split CHR ''-'' r) = 3"
  shows "take 3 (split CHR ''-'' r) = [y, m, d] \<longleftrightarrow> r = y @ ''-'' @ m @ ''-'' @ d"
proof -
  let ?q = "y @ ''-'' @ m @ ''-'' @ d"
  from assms have sq: "split CHR ''-'' ?q = [y, m, d]"
    by (simp add: split_append_sep split_no_sep)
  from assms have "length (split CHR ''-'' r) = length (split CHR ''-'' ?q)"
    by (simp only: sq) simp
  then have "take (length (split CHR ''-'' ?q)) (split CHR ''-'' r) = split CHR ''-'' ?q
      \<longleftrightarrow> r = ?q"
    by (rule full_date_exact)
  then show ?thesis
    using sq by (simp add: numeral_3_eq_3)
qed

text \<open>
  C2, as the source has it. For every date query other than the empty string,
  \<open>search_records\<close> keeps, among the records the other criteria keep, exactly those
  whose date, split on \<open>-\<close>, begins with the components of the query, split on \<open>-\<close>;
  the empty query is not applied, as an absent one. Hence a year alone selects the
  records whose first component is that year, a year and a month those whose first two
  components are these, and a full date those whose first three components are its
  own: a record dated with exactly three components is returned for a full date
  exactly when it is in the store and has that date.
\<close>

theorem search_records_date_components:
  "(q \<noteq> [] \<longrightarrow>
      search_records c (Some q) p self =
        filter (\<lambda>r. prefix (split CHR ''-'' q) (split CHR ''-'' (date r)))
          (search_records c None p self))
   \<and> search_records c (Some []) p self = search_records c None p self
   \<and> (y \<noteq> [] \<and> CHR ''-'' \<notin> set y \<longrightarrow>
      search_records None (Some y) None self =
        filter (\<lambda>r. take 1 (split CHR ''-'' (date r)) = [y]) (records self))
   \<and> (CHR ''-'' \<notin> set y \<and> CHR ''-'' \<notin> set m \<longrightarrow>
      search_records None (Some (y @ ''-'' @ m)) None self =
        filter (\<lambda>r. take 2 (split CHR ''-'' (date r)) = [y, m]) (records self))
   \<and> (CHR ''-'' \<notin> set y \<and> CHR ''-'' \<notin> set m \<and> CHR ''-'' \<notin> set d \<longrightarrow>
      search_records None (Some (y @ ''-'' @ m @ ''-'' @ d)) None self =
        filter (\<lambda>r. take 3 (split CHR ''-'' (date r)) = [y, m, d]) (records self))
   \<and> (CHR ''-'' \<notin> set y \<and> CHR ''-'' \<notin> set m \<and> CHR ''-'' \<notin> set d \<and>
      length (split CHR ''-'' (date r)) = 3 \<longrightarrow>
      (r \<in> set (search_records None (Some (y @ ''-'' @ m @ ''-'' @ d)) None self) \<longleftrightarrow>
       r \<in> set (records self) \<and> date r = y @ ''-'' @ m @ ''-'' @ d))"
proof (intro conjI impI)
  assume "q \<noteq> []"
  then show "search_records c (Some q) p self =
        filter (\<lambda>r. prefix (split CHR ''-'' q) (split CHR ''-'' (date r)))
          (search_records c None p self)"
    by (rule search_records_date_filter)
next
  show "search_records c (Some []) p self = search_records c None p self"
    by (rule search_records_empty_date)
next
  assume "y \<noteq> [] \<and> CHR ''-'' \<notin> set y"
  then show "search_records None (Some y) None self =
        filter (\<lambda>r. take 1 (split CHR ''-'' (date r)) = [y]) (records self)"
    by (simp add: search_records_date_only split_no_sep)
next
  assume "CHR ''-'' \<notin> set y \<and> CHR ''-'' \<notin> set m"
  then show "search_records None (Some (y @ ''-'' @ m)) None self =
        filter (\<lambda>r. take 2 (split CHR ''-'' (date r)) = [y, m]) (records self)"
    by (simp add: search_records_date_only split_append_sep split_no_sep numeral_2_eq_2)
next
  assume a: "CHR ''-'' \<notin> set y \<and> CHR ''-'' \<notin> set m \<and> CHR ''-'' \<notin> set d"
  show "search_records None (Some (y @ ''-'' @ m @ ''-'' @ d)) None self =
        filter (\<lambda>r. take 3 (split CHR ''-'' (date r)) = [y, m, d]) (records self)"
    by (rule search_records_full_date) (use a in simp_all)
next
  assume a: "CHR ''-'' \<notin> set y \<and> CHR ''-'' \<notin> set m \<and> CHR ''-'' \<notin> set d \<and>
      length (split CHR ''-'' (date r)) = 3"
  have s: "search_records None (Some (y @ ''-'' @ m @ ''-'' @ d)) None self =
        filter (\<lambda>r. take 3 (split CHR ''-'' (date r)) = [y, m, d]) (records self)"
    by (rule search_records_full_date) (use a in simp_all)
  have e: "take 3 (split CHR ''-'' (date r)) = [y, m, d] \<longleftrightarrow>
      date r = y @ ''-'' @ m @ ''-'' @ d"
    by (rule three_components_exact) (use a in simp_all)
  show "r \<in> set (search_records None (Some (y @ ''-'' @ m @ ''-'' @ d)) None self) \<longleftrightarrow>
       r \<in> set (records self) \<and> date r = y @ ''-'' @ m @ ''-'' @ d"
    by (simp only: s set_filter mem_Collect_eq e)
qed

text \<open>
  The theorem at a store of five records, one of them dated with four components: the
  month 2024-05 together with the amount 1500, the empty query, the year 2024, the
  month 2024-05, the day 2024-05-02, and the first record, dated with three
  components.
\<close>

theorem search_records_date_components_witness:
  "search_records None (Some ''2024-05'') (Some 1500)
     \<lparr>filepath = ''u.json'',
      records =
        [\<lparr>date = ''2024-05-02'', category = Income, price = 30000, description = ''Salary''\<rparr>,
         \<lparr>date = ''2024-05-03'', category = Expense, price = 1500, description = ''Groceries''\<rparr>,
         \<lparr>date = ''2024-06-01'', category = Expense, price = 1500, description = ''Rent''\<rparr>,
         \<lparr>date = ''2023-05-02'', category = Income, price = 7, description = ''Gift''\<rparr>,
         \<lparr>date = ''2024-05-02-x'', category = Income, price = 9, description = ''Odd''\<rparr>]\<rparr>
   = [\<lparr>date = ''2024-05-03'', category = Expense, price = 1500, description = ''Groceries''\<rparr>]
   \<and> search_records None (Some []) (Some 1500)
     \<lparr>filepath = ''u.json'',
      records =
        [\<lparr>date = ''2024-05-02'', category = Income, price = 30000, description = ''Salary''\<rparr>,
         \<lparr>date = ''2024-05-03'', category = Expense, price = 1500, description = ''Groceries''\<rparr>,
         \<lparr>date = ''2024-06-01'', category = Expense, price = 1500, description = ''Rent''\<rparr>,
         \<lparr>date = ''2023-05-02'', category = Income, price = 7, description = ''Gift''\<rparr>,
         \<lparr>date = ''2024-05-02-x'', category = Income, price = 9, description = ''Odd''\<rparr>]\<rparr>
   = [\<lparr>date = ''2024-05-03'', category = Expense, price = 1500, description = ''Groceries''\<rparr>,
      \<lparr>date = ''2024-06-01'', category = Expense, price = 1500, description = ''Rent''\<rparr>]
   \<and> search_records None (Some ''2024'') None
     \<lparr>filepath = ''u.json'',
      records =
        [\<lparr>date = ''2024-05-02'', category = Income, price = 30000, description = ''Salary''\<rparr>,
         \<lparr>date = ''2024-05-03'', category = Expense, price = 1500, description = ''Groceries''\<rparr>,
         \<lparr>date = ''2024-06-01'', category = Expense, price = 1500, description = ''Rent''\<rparr>,
         \<lparr>date = ''2023-05-02'', category = Income, price = 7, description = ''Gift''\<rparr>,
         \<lparr>date = ''2024-05-02-x'', category = Income, price = 9, description = ''Odd''\<rparr>]\<rparr>
   = [\<lparr>date = ''2024-05-02'', category = Income, price = 30000, description = ''Salary''\<rparr>,
      \<lparr>date = ''2024-05-03'', category = Expense, price = 1500, description = ''Groceries''\<rparr>,
      \<lparr>date = ''2024-06-01'', category = Expense, price = 1500, description = ''Rent''\<rparr>,
      \<lparr>date = ''2024-05-02-x'', category = Income, price = 9, description = ''Odd''\<rparr>]
   \<and> search_records None (Some ''2024-05'') None
     \<lparr>filepath = ''u.json'',
      records =
        [\<lparr>date = ''2024-05-02'', category = Income, price = 30000, description = ''Salary''\<rparr>,
         \<lparr>date = ''2024-05-03'', category = Expense, price = 1500, description = ''Groceries''\<rparr>,
         \<lparr>date = ''2024-06-01'', category = Expense, price = 1500, description = ''Rent''\<rparr>,
         \<lparr>date = ''2023-05-02'', category = Income, price = 7, description = ''Gift''\<rparr>,
         \<lparr>date = ''2024-05-02-x'', category = Income, price = 9, description = ''Odd''\<rparr>]\<rparr>
   = [\<lparr>date = ''2024-05-02'', category = Income, price = 30000, description = ''Salary''\<rparr>,
      \<lparr>date = ''2024-05-03'', category = Expense, price = 1500, description = ''Groceries''\<rparr>,
      \<lparr>date = ''2024-05-02-x'', category = Income, price = 9, description = ''Odd''\<rparr>]
   \<and> search_records None (Some ''2024-05-02'') None
     \<lparr>filepath = ''u.json'',
      records =
        [\<lparr>date = ''2024-05-02'', category = Income, price = 30000, description = ''Salary''\<rparr>,
         \<lparr>date = ''2024-05-03'', category = Expense, price = 1500, description = ''Groceries''\<rparr>,
         \<lparr>date = ''2024-06-01'', category = Expense, price = 1500, description = ''Rent''\<rparr>,
         \<lparr>date = ''2023-05-02'', category = Income, price = 7, description = ''Gift''\<rparr>,
         \<lparr>date = ''2024-05-02-x'', category = Income, price = 9, description = ''Odd''\<rparr>]\<rparr>
   = [\<lparr>date = ''2024-05-02'', category = Income, price = 30000, description = ''Salary''\<rparr>,
      \<lparr>date = ''2024-05-02-x'', category = Income, price = 9, description = ''Odd''\<rparr>]
   \<and> \<lparr>date = ''2024-05-02'', category = Income, price = 30000, description = ''Salary''\<rparr>
     \<in> set (search_records None (Some ''2024-05-02'') None
     \<lparr>filepath = ''u.json'',
      records =
        [\<lparr>date = ''2024-05-02'', category = Income, price = 30000, description = ''Salary''\<rparr>,
         \<lparr>date = ''2024-05-03'', category = Expense, price = 1500, description = ''Groceries''\<rparr>,
         \<lparr>date = ''2024-06-01'', category = Expense, price = 1500, description = ''Rent''\<rparr>,
         \<lparr>date = ''2023-05-02'', category = Income, price = 7, description = ''Gift''\<rparr>,
         \<lparr>date = ''2024-05-02-x'', category = Income, price = 9, description = ''Odd''\<rparr>]\<rparr>)
   \<and> length (split CHR ''-'' (date \<lparr>date = ''2024-05-02'', category = Income, price = 30000, description = ''Salary''\<rparr>)) = 3"
  using search_records_date_components
    [where q = "''2024-05''" and c = None and p = "Some 1500" and y = "''2024''"
       and m = "''05''" and d = "''02''"
       and r = "\<lparr>date = ''2024-05-02'', category = Income, price = 30000, description = ''Salary''\<rparr>"
       and self = "\<lparr>filepath = ''u.json'',
      records =
        [\<lparr>date = ''2024-05-02'', category = Income, price = 30000, description = ''Salary''\<rparr>,
         \<lparr>date = ''2024-05-03'', category = Expense, price = 1500, description = ''Groceries''\<rparr>,
         \<lparr>date = ''2024-06-01'', category = Expense, price = 1500, description = ''Rent''\<rparr>,
         \<lparr>date = ''2023-05-02'', category = Income, price = 7, description = ''Gift''\<rparr>,
         \<lparr>date = ''2024-05-02-x'', category = Income, price = 9, description = ''Odd''\<rparr>]\<rparr>"]
  by (simp add: search_records_def category_differs_def date_differs_def price_differs_def)

text \<open>
  C2, as the claim states it, fails twice. At the empty query \<open>if date:\<close> does not
  hold, the test is skipped and the record is returned, although the components of the
  empty string (one empty component) are not the leading components of the record's
  date. And the full date 2024-05-02 returns a record dated 2024-05-02-x, whose first
  three components are those of the query, although it does not have exactly that date.
\<close>

theorem search_records_empty_date_counterexample:
  "search_records None (Some []) None
     \<lparr>filepath = ''u.json'',
      records = [\<lparr>date = ''2024-05-02'', category = Income, price = 30000, description = ''Salary''\<rparr>]\<rparr>
   = [\<lparr>date = ''2024-05-02'', category = Income, price = 30000, description = ''Salary''\<rparr>]
   \<and> \<not> prefix (split CHR ''-'' []) (split CHR ''-'' ''2024-05-02'')
   \<and> search_records None (Some ''2024-05-02'') None
     \<lparr>filepath = ''u.json'',
      records = [\<lparr>date = ''2024-05-02-x'', category = Income, price = 9, description = ''Odd''\<rparr>]\<rparr>
   = [\<lparr>date = ''2024-05-02-x'', category = Income, price = 9, description = ''Odd''\<rparr>]
   \<and> date \<lparr>date = ''2024-05-02-x'', category = Income, price = 9, description = ''Odd''\<rparr> \<noteq> ''2024-05-02''"
  by (simp add: search_records_def category_differs_def date_differs_def price_differs_def)

text \<open>
  C6, as the source has it. \<open>search_records\<close> returns the records that match every
  criterion that is supplied and truthy, in the order of the sequence: the category and
  the amount by equality, the date by its leading components. A criterion that is
  \<open>None\<close>, the empty string or 0 matches everything. In particular a search for the
  expense category returns exactly the expense records, in order.
\<close>

theorem search_records_truthy_criteria:
  "search_records c d p self =
     filter (matches_supplied (drop_falsy_str c) (drop_falsy_str d) (drop_falsy_int p))
       (records self)
   \<and> subseq (search_records c d p self) (records self)
   \<and> search_records (Some Expense) None None self =
       filter (\<lambda>record. category record = Expense) (records self)"
proof (intro conjI)
  show "search_records c d p self =
     filter (matches_supplied (drop_falsy_str c) (drop_falsy_str d) (drop_falsy_int p))
       (records self)"
    by (simp add: search_records_filter keeps_matches [abs_def])
  show "subseq (search_records c d p self) (records self)"
    by (simp add: search_records_filter)
  show "search_records (Some Expense) None None self =
       filter (\<lambda>record. category record = Expense) (records self)"
    by (simp add: search_records_filter keeps_matches [abs_def] matches_supplied_def
        drop_falsy_str_def drop_falsy_int_def Expense_not_Nil)
qed

text \<open>
  C6, as the claim states it, fails at the amount 0: the search returns a record of
  amount 1500, which does not match the supplied amount.
\<close>

theorem search_records_amount_zero_counterexample:
  "search_records None None (Some 0)
     \<lparr>filepath = ''u.json'',
      records = [\<lparr>date = ''2024-05-03'', category = Expense, price = 1500, description = ''Groceries''\<rparr>]\<rparr>
   = [\<lparr>date = ''2024-05-03'', category = Expense, price = 1500, description = ''Groceries''\<rparr>]
   \<and> \<not> matches_supplied None None (Some 0)
        \<lparr>date = ''2024-05-03'', category = Expense, price = 1500, description = ''Groceries''\<rparr>"
  by (simp add: search_records_def category_differs_def date_differs_def price_differs_def
      matches_supplied_def)

text \<open>
  C9. With the amount 0, \<open>search_records\<close> returns what it returns with no amount at
  all; with no other criterion that is every record, whatever its amount.
\<close>

theorem search_records_amount_zero:
  "search_records c d (Some 0) self = search_records c d None self
   \<and> search_records None None (Some 0) self = records self"
  by (simp add: search_records_filter keeps_def [abs_def] price_differs_def
      category_differs_def date_differs_def)

subsection \<open>add_record and the round trip through the file\<close>

text \<open>
  C5. \<open>add_record\<close> never fails, whatever its arguments; it appends the record made of
  them, unchanged, at the position equal to the previous length, the length grows by
  one, the records before it stay as they were, and the file holds the new sequence.
\<close>

theorem add_record_appends:
  "add_record d c p s (fs, self) =
     (Inr (),
      (fs(filepath self \<mapsto> Document (JArr (map Record_dict
          (records self @ [\<lparr>date = d, category = c, price = p, description = s\<rparr>])))),
       self\<lparr>records := records self @
          [\<lparr>date = d, category = c, price = p, description = s\<rparr>]\<rparr>))
   \<and> length (records (snd (snd (add_record d c p s (fs, self))))) = Suc (length (records self))
   \<and> records (snd (snd (add_record d c p s (fs, self)))) ! length (records self) =
       \<lparr>date = d, category = c, price = p, description = s\<rparr>
   \<and> take (length (records self)) (records (snd (snd (add_record d c p s (fs, self))))) =
       records self"
  by (simp add: add_record_def save_data_def)

lemma Record_kwargs_dict: "Record_kwargs (Record_dict r) = Inr r"
  by (simp add: Record_kwargs_def Record_dict_def)

lemma load_loop_dicts: "load_loop (map Record_dict rs) acc = (Inr (), acc @ rs)"
  by (induction rs arbitrary: acc) (simp_all add: Record_kwargs_dict)

text \<open>
  C7. \<open>save_data\<close> succeeds, and a store constructed afterwards for the same user name
  on the files it leaves holds the same records: the same fields in the same order.
\<close>

theorem save_then_fresh_load:
  "fst (save_data (fs, \<lparr>filepath = u @ ''.json'', records = rs\<rparr>)) = Inr ()
   \<and> MyCash_init u (fst (snd (save_data (fs, \<lparr>filepath = u @ ''.json'', records = rs\<rparr>)))) =
     (Inr (),
      (fs(u @ ''.json'' \<mapsto> Document (JArr (map Record_dict rs))),
       \<lparr>filepath = u @ ''.json'', records = rs\<rparr>))"
  by (simp add: MyCash_init_def save_data_def load_data_def load_loop_dicts)

subsection \<open>edit_record\<close>

lemma list_getitem_in_bounds:
  "0 \<le> i \<Longrightarrow> i < int (length xs) \<Longrightarrow> list_getitem xs i = Inr (nat i)"
  by (simp add: list_getitem_def Let_def)

lemma list_getitem_from_end:
  "- int (length xs) \<le> i \<Longrightarrow> i < 0 \<Longrightarrow> list_getitem xs i = Inr (nat (i + int (length xs)))"
  by (simp add: list_getitem_def Let_def)

lemma list_getitem_out_of_range:
  "i < - int (length xs) \<or> int (length xs) \<le> i \<Longrightarrow> list_getitem xs i = Inl IndexError"
  by (auto simp add: list_getitem_def Let_def)

lemma edit_record_at:
  "list_getitem (records self) i = Inr k \<Longrightarrow>
   edit_record i d c p s (fs, self) =
     (Inr (),
      (fs(filepath self \<mapsto> Document (JArr (map Record_dict
          ((records self)[k := edit_fields d c p s (records self ! k)])))),
       self\<lparr>records := (records self)[k := edit_fields d c p s (records self ! k)]\<rparr>))"
  by (simp add: edit_record_def save_data_def)

lemma edit_fields_date:
  "date (edit_fields d c p s r) = (case d of None \<Rightarrow> date r | Some v \<Rightarrow> if v = [] then date r else v)"
  by (cases d) (simp_all add: edit_fields_def Let_def)

lemma edit_fields_category:
  "category (edit_fields d c p s r) =
     (case c of None \<Rightarrow> category r | Some v \<Rightarrow> if v = [] then category r else v)"
  by (cases c) (simp_all add: edit_fields_def Let_def)

lemma edit_fields_price:
  "price (edit_fields d c p s r) = (case p of None \<Rightarrow> price r | Some n \<Rightarrow> if n = 0 then price r else n)"
  by (cases p) (simp_all add: edit_fields_def Let_def)

lemma edit_fields_description:
  "description (edit_fields d c p s r) =
     (case s of None \<Rightarrow> description r | Some v \<Rightarrow> if v = [] then description r else v)"
  by (cases s) (simp_all add: edit_fields_def Let_def)

lemma edit_fields_falsy:
  "\<not> truthy_str d \<Longrightarrow> \<not> truthy_str c \<Longrightarrow> \<not> truthy_int p \<Longrightarrow> \<not> truthy_str s \<Longrightarrow>
   edit_fields d c p s r = r"
  by (simp add: edit_fields_def)

text \<open>
  C3. For every index from 0 up to the length of the sequence, \<open>edit_record\<close> returns
  normally; the record at that index takes each supplied value that is truthy (a
  non-empty string, a non-zero amount) and keeps each other field; the sequence keeps its
  length and every other record. In particular an edit with the amount 0 alone, or
  with the empty description alone, leaves the records as they were.
\<close>

theorem edit_record_in_bounds:
  assumes "0 \<le> i" and "i < int (length (records self))"
  shows "fst (edit_record i d c p s (fs, self)) = Inr ()
    \<and> length (records (snd (snd (edit_record i d c p s (fs, self))))) = length (records self)
    \<and> date (records (snd (snd (edit_record i d c p s (fs, self)))) ! nat i) =
        (case d of None \<Rightarrow> date (records self ! nat i)
         | Some v \<Rightarrow> if v = [] then date (records self ! nat i) else v)
    \<and> category (records (snd (snd (edit_record i d c p s (fs, self)))) ! nat i) =
        (case c of None \<Rightarrow> category (records self ! nat i)
         | Some v \<Rightarrow> if v = [] then category (records self ! nat i) else v)
    \<and> price (records (snd (snd (edit_record i d c p s (fs, self)))) ! nat i) =
        (case p of None \<Rightarrow> price (records self ! nat i)
         | Some n \<Rightarrow> if n = 0 then price (records self ! nat i) else n)
    \<and> description (records (snd (snd (edit_record i d c p s (fs, self)))) ! nat i) =
        (case s of None \<Rightarrow> description (records self ! nat i)
         | Some v \<Rightarrow> if v = [] then description (records self ! nat i) else v)
    \<and> (\<forall>j < length (records self). j \<noteq> nat i \<longrightarrow>
          records (snd (snd (edit_record i d c p s (fs, self)))) ! j = records self ! j)
    \<and> records (snd (snd (edit_record i None None (Some 0) None (fs, self)))) = records self
    \<and> records (snd (snd (edit_record i None None None (Some []) (fs, self)))) = records self"
proof -
  have k: "list_getitem (records self) i = Inr (nat i)"
    using assms by (rule list_getitem_in_bounds)
  have lt: "nat i < length (records self)"
    using assms by simp
  note e = edit_record_at [OF k]
  show ?thesis
    using lt
    by (simp add: e edit_fields_date edit_fields_category edit_fields_price
        edit_fields_description edit_fields_falsy)
qed

text \<open>
  The theorem at the second of two records, with a new date, the amount 0 and the
  empty description: only the date changes.
\<close>

theorem edit_record_in_bounds_witness:
  "records (snd (snd (edit_record 1 (Some ''2024-05-04'') None (Some 0) (Some [])
     (Map.empty,
      \<lparr>filepath = ''u.json'',
       records =
        [\<lparr>date = ''2024-05-02'', category = Income, price = 30000, description = ''Salary''\<rparr>,
         \<lparr>date = ''2024-05-03'', category = Expense, price = 1500, description = ''Groceries''\<rparr>]\<rparr>))))
   = [\<lparr>date = ''2024-05-02'', category = Income, price = 30000, description = ''Salary''\<rparr>,
      \<lparr>date = ''2024-05-04'', category = Expense, price = 1500, description = ''Groceries''\<rparr>]
   \<and> fst (edit_record 1 (Some ''2024-05-04'') None (Some 0) (Some [])
     (Map.empty,
      \<lparr>filepath = ''u.json'',
       records =
        [\<lparr>date = ''2024-05-02'', category = Income, price = 30000, description = ''Salary''\<rparr>,
         \<lparr>date = ''2024-05-03'', category = Expense, price = 1500, description = ''Groceries''\<rparr>]\<rparr>))
   = Inr ()"
  using edit_record_in_bounds [of 1
      "\<lparr>filepath = ''u.json'',
       records =
        [\<lparr>date = ''2024-05-02'', category = Income, price = 30000, description = ''Salary''\<rparr>,
         \<lparr>date = ''2024-05-03'', category = Expense, price = 1500, description = ''Groceries''\<rparr>]\<rparr>"
      "Some ''2024-05-04''" None "Some 0" "Some []" Map.empty]
  by (simp add: edit_record_def list_getitem_def save_data_def edit_fields_def)

text \<open>
  C4, as the source has it. For every index at or above the length of the sequence,
  or below minus the length, \<open>edit_record\<close> raises \<open>IndexError\<close> and leaves the records
  and the files as they were. A negative index from minus the length on denotes the
  record counted from the end: the edit is the one at that index plus the length.
\<close>

theorem edit_record_out_of_range:
  "(i < - int (length (records self)) \<or> int (length (records self)) \<le> i \<longrightarrow>
      edit_record i d c p s (fs, self) = (Inl IndexError, (fs, self)))
   \<and> (- int (length (records self)) \<le> i \<and> i < 0 \<longrightarrow>
      edit_record i d c p s (fs, self) =
        edit_record (i + int (length (records self))) d c p s (fs, self))"
proof (intro conjI impI)
  assume "i < - int (length (records self)) \<or> int (length (records self)) \<le> i"
  then have "list_getitem (records self) i = Inl IndexError"
    by (rule list_getitem_out_of_range)
  then show "edit_record i d c p s (fs, self) = (Inl IndexError, (fs, self))"
    by (simp add: edit_record_def)
next
  assume a: "- int (length (records self)) \<le> i \<and> i < 0"
  then have 1: "list_getitem (records self) i = Inr (nat (i + int (length (records self))))"
    by (simp add: list_getitem_from_end)
  from a have 2: "list_getitem (records self) (i + int (length (records self)))
      = Inr (nat (i + int (length (records self))))"
    by (simp add: list_getitem_in_bounds)
  show "edit_record i d c p s (fs, self) =
        edit_record (i + int (length (records self))) d c p s (fs, self)"
    by (simp add: edit_record_at [OF 1] edit_record_at [OF 2])
qed

text \<open>
  The theorem at a sequence of one record: the indices 1 and -2 raise, the index -1
  is the index 0.
\<close>

theorem edit_record_out_of_range_witness:
  "edit_record 1 (Some ''2024-05-04'') None (Some 7) None
     (Map.empty,
      \<lparr>filepath = ''u.json'',
       records =
        [\<lparr>date = ''2024-05-02'', category = Income, price = 30000, description = ''Salary''\<rparr>]\<rparr>)
   = (Inl IndexError,
      (Map.empty,
       \<lparr>filepath = ''u.json'',
        records =
         [\<lparr>date = ''2024-05-02'', category = Income, price = 30000, description = ''Salary''\<rparr>]\<rparr>))
   \<and> edit_record (- 2) None None (Some 7) None
     (Map.empty,
      \<lparr>filepath = ''u.json'',
       records =
        [\<lparr>date = ''2024-05-02'', category = Income, price = 30000, description = ''Salary''\<rparr>]\<rparr>)
   = (Inl IndexError,
      (Map.empty,
       \<lparr>filepath = ''u.json'',
        records =
         [\<lparr>date = ''2024-05-02'', category = Income, price = 30000, description = ''Salary''\<rparr>]\<rparr>))
   \<and> edit_record (- 1) None None (Some 7) None
     (Map.empty,
      \<lparr>filepath = ''u.json'',
       records =
        [\<lparr>date = ''2024-05-02'', category = Income, price = 30000, description = ''Salary''\<rparr>]\<rparr>)
   = edit_record 0 None None (Some 7) None
     (Map.empty,
      \<lparr>filepath = ''u.json'',
       records =
        [\<lparr>date = ''2024-05-02'', category = Income, price = 30000, description = ''Salary''\<rparr>]\<rparr>)"
  using edit_record_out_of_range [of 1
      "\<lparr>filepath = ''u.json'',
       records =
        [\<lparr>date = ''2024-05-02'', category = Income, price = 30000, description = ''Salary''\<rparr>]\<rparr>"
      "Some ''2024-05-04''" None "Some 7" None Map.empty]
    edit_record_out_of_range [of "- 2"
      "\<lparr>filepath = ''u.json'',
       records =
        [\<lparr>date = ''2024-05-02'', category = Income, price = 30000, description = ''Salary''\<rparr>]\<rparr>"
      None None "Some 7" None Map.empty]
    edit_record_out_of_range [of "- 1"
      "\<lparr>filepath = ''u.json'',
       records =
        [\<lparr>date = ''2024-05-02'', category = Income, price = 30000, description = ''Salary''\<rparr>]\<rparr>"
      None None "Some 7" None Map.empty]
  by simp

text \<open>
  C4, as the claim states it, fails at the index -1 of a sequence of one record:
  \<open>self.records[-1]\<close> is the last record, the call returns normally and the amount of
  the record has changed.
\<close>

theorem edit_record_negative_index_counterexample:
  "fst (edit_record (- 1) None None (Some 7) None
     (Map.empty,
      \<lparr>filepath = ''u.json'',
       records =
        [\<lparr>date = ''2024-05-02'', category = Income, price = 30000, description = ''Salary''\<rparr>]\<rparr>))
   = Inr ()
   \<and> records (snd (snd (edit_record (- 1) None None (Some 7) None
     (Map.empty,
      \<lparr>filepath = ''u.json'',
       records =
        [\<lparr>date = ''2024-05-02'', category = Income, price = 30000, description = ''Salary''\<rparr>]\<rparr>))))
   = [\<lparr>date = ''2024-05-02'', category = Income, price = 7, description = ''Salary''\<rparr>]"
  by (simp add: edit_record_def list_getitem_def save_data_def edit_fields_def)

subsection \<open>load_data\<close>

lemma well_formed_entry_kwargs:
  assumes "well_formed_entry x"
  shows "\<exists>r. Record_kwargs x = Inr r"
proof (cases x)
  case (JObj m)
  with assms show ?thesis
    by (auto simp add: well_formed_entry_def Record_kwargs_def
        split: option.splits json.splits)
qed (use assms in \<open>simp_all add: well_formed_entry_def\<close>)

lemma load_loop_well_formed:
  "list_all well_formed_entry xs \<Longrightarrow> fst (load_loop xs acc) = Inr ()"
proof (induction xs arbitrary: acc)
  case Nil
  show ?case by simp
next
  case (Cons x xs)
  from Cons.prems obtain r where "Record_kwargs x = Inr r"
    using well_formed_entry_kwargs by auto
  with Cons show ?case by simp
qed

lemma load_items_well_formed:
  "well_formed (Document data) \<Longrightarrow> fst (load_items data acc) = Inr ()"
  by (cases data) (simp_all add: load_loop_well_formed)

lemma load_data_absent:
  "fs (filepath self) = None \<Longrightarrow> load_data (fs, self) = (Inr (), (fs, self\<lparr>records := []\<rparr>))"
  by (simp add: load_data_def)

lemma load_data_well_formed:
  assumes "fs (filepath self) = Some c" and "well_formed c"
  shows "fst (load_data (fs, self)) = Inr ()"
proof (cases c)
  case Undecodable
  with assms show ?thesis by simp
next
  case (Document data)
  with assms have "fst (load_items data (records self)) = Inr ()"
    by (simp add: load_items_well_formed)
  with assms Document show ?thesis
    by (auto simp add: load_data_def split: prod.splits)
qed

text \<open>
  C8. When no file exists at the path, \<open>load_data\<close> returns normally and the store has
  no records. When \<open>load_data\<close> fails (in the model also when it stops at \<open>Untyped\<close>,
  where the source carries on), a file exists at the path and it is not in the persisted
  format.
\<close>

theorem load_data_fails_only_malformed:
  "(fs (filepath self) = None \<longrightarrow>
      load_data (fs, self) = (Inr (), (fs, self\<lparr>records := []\<rparr>)))
   \<and> (fst (load_data (fs, self)) = Inl e \<longrightarrow>
      (\<exists>c. fs (filepath self) = Some c \<and> \<not> well_formed c))"
proof (intro conjI impI)
  assume "fs (filepath self) = None"
  then show "load_data (fs, self) = (Inr (), (fs, self\<lparr>records := []\<rparr>))"
    by (rule load_data_absent)
next
  assume f: "fst (load_data (fs, self)) = Inl e"
  show "\<exists>c. fs (filepath self) = Some c \<and> \<not> well_formed c"
  proof (cases "fs (filepath self)")
    case None
    with f show ?thesis by (simp add: load_data_absent)
  next
    case (Some c)
    have "\<not> well_formed c"
    proof
      assume "well_formed c"
      with Some have "fst (load_data (fs, self)) = Inr ()"
        by (rule load_data_well_formed)
      with f show False by simp
    qed
    with Some show ?thesis by simp
  qed
qed

text \<open>
  The theorem with no file, and with a file that holds the array of one \<open>null\<close>.
\<close>

theorem load_data_fails_only_malformed_witness:
  "load_data (Map.empty, \<lparr>filepath = ''u.json'', records = []\<rparr>) =
     (Inr (), (Map.empty, \<lparr>filepath = ''u.json'', records = []\<rparr>))
   \<and> fst (load_data ([''u.json'' \<mapsto> Document (JArr [JNull])],
        \<lparr>filepath = ''u.json'', records = []\<rparr>)) = Inl TypeError
   \<and> (\<exists>c. [''u.json'' \<mapsto> Document (JArr [JNull])] ''u.json'' = Some c \<and> \<not> well_formed c)"
proof -
  have f: "fst (load_data ([''u.json'' \<mapsto> Document (JArr [JNull])],
        \<lparr>filepath = ''u.json'', records = []\<rparr>)) = Inl TypeError"
    by (simp add: load_data_def Record_kwargs_def)
  have a: "load_data (Map.empty, \<lparr>filepath = ''u.json'', records = []\<rparr>) =
     (Inr (), (Map.empty, \<lparr>filepath = ''u.json'', records = []\<rparr>))"
    using load_data_fails_only_malformed
      [of Map.empty "\<lparr>filepath = ''u.json'', records = []\<rparr>" TypeError]
    by simp
  have b: "\<exists>c. [''u.json'' \<mapsto> Document (JArr [JNull])] ''u.json'' = Some c \<and> \<not> well_formed c"
    using f load_data_fails_only_malformed
      [of "[''u.json'' \<mapsto> Document (JArr [JNull])]"
          "\<lparr>filepath = ''u.json'', records = []\<rparr>" TypeError]
    by simp
  from a f b show ?thesis by simp
qed

lemma load_loop_prefix: "prefix acc (snd (load_loop items acc))"
proof (induction items arbitrary: acc)
  case Nil
  show ?case by simp
next
  case (Cons x xs)
  show ?case
  proof (cases "Record_kwargs x")
    case (Inl e)
    then show ?thesis by simp
  next
    case (Inr r)
    have "prefix (acc @ [r]) (snd (load_loop xs (acc @ [r])))" by (rule Cons.IH)
    then have "prefix acc (snd (load_loop xs (acc @ [r])))"
      by (rule append_prefixD)
    with Inr show ?thesis by simp
  qed
qed

lemma load_items_prefix: "prefix acc (snd (load_items data acc))"
  by (cases data) (simp_all add: load_loop_prefix)

lemma load_data_dicts:
  "fs (filepath self) = Some (Document (JArr (map Record_dict rs))) \<Longrightarrow>
   load_data (fs, self) = (Inr (), (fs, self\<lparr>records := records self @ rs\<rparr>))"
  by (simp add: load_data_def load_loop_dicts)

lemma load_data_prefix:
  assumes "fs (filepath self) \<noteq> None"
  shows "prefix (records self) (records (snd (snd (load_data (fs, self)))))"
proof -
  from assms obtain c where c: "fs (filepath self) = Some c" by auto
  show ?thesis
  proof (cases c)
    case Undecodable
    with c show ?thesis by (simp add: load_data_def)
  next
    case (Document data)
    have "prefix (records self) (snd (load_items data (records self)))"
      by (rule load_items_prefix)
    with c Document show ?thesis
      by (auto simp add: load_data_def split: prod.splits)
  qed
qed

text \<open>
  C10. When the file holds the saved form of a sequence of records, \<open>load_data\<close>
  returns normally with these records appended to the ones the store already has.
  Whenever the file exists, the records the store had remain at the front, also when
  the load fails; only when no file exists are they dropped. Hence a store with records
  does not end up with the stored sequence, and a second \<open>load_data\<close> after the
  construction of a store leaves every stored record twice.
\<close>

theorem load_data_appends:
  "(fs (filepath self) = Some (Document (JArr (map Record_dict rs))) \<longrightarrow>
      load_data (fs, self) = (Inr (), (fs, self\<lparr>records := records self @ rs\<rparr>)))
   \<and> (fs (filepath self) \<noteq> None \<longrightarrow>
      prefix (records self) (records (snd (snd (load_data (fs, self))))))
   \<and> (fs (filepath self) = None \<longrightarrow> records (snd (snd (load_data (fs, self)))) = [])
   \<and> (fs (filepath self) = Some (Document (JArr (map Record_dict rs))) \<and> records self \<noteq> [] \<longrightarrow>
      records (snd (snd (load_data (fs, self)))) \<noteq> rs)
   \<and> (fs (u @ ''.json'') = Some (Document (JArr (map Record_dict rs))) \<longrightarrow>
      load_data (snd (MyCash_init u fs)) =
        (Inr (), (fs, \<lparr>filepath = u @ ''.json'', records = rs @ rs\<rparr>)))"
proof (intro conjI impI)
  assume "fs (filepath self) = Some (Document (JArr (map Record_dict rs)))"
  then show "load_data (fs, self) = (Inr (), (fs, self\<lparr>records := records self @ rs\<rparr>))"
    by (rule load_data_dicts)
next
  assume "fs (filepath self) \<noteq> None"
  then show "prefix (records self) (records (snd (snd (load_data (fs, self)))))"
    by (rule load_data_prefix)
next
  assume "fs (filepath self) = None"
  then show "records (snd (snd (load_data (fs, self)))) = []"
    by (simp add: load_data_absent)
next
  assume "fs (filepath self) = Some (Document (JArr (map Record_dict rs))) \<and> records self \<noteq> []"
  then show "records (snd (snd (load_data (fs, self)))) \<noteq> rs"
    by (simp add: load_data_dicts)
next
  assume a: "fs (u @ ''.json'') = Some (Document (JArr (map Record_dict rs)))"
  then have "MyCash_init u fs = (Inr (), (fs, \<lparr>filepath = u @ ''.json'', records = rs\<rparr>))"
    by (simp add: MyCash_init_def load_data_dicts)
  with a show "load_data (snd (MyCash_init u fs)) =
        (Inr (), (fs, \<lparr>filepath = u @ ''.json'', records = rs @ rs\<rparr>))"
    by (simp add: load_data_dicts)
qed

text \<open>
  The theorem at a store of one record whose file holds that record, at the store
  constructed from that file, and at the same store with no file.
\<close>

theorem load_data_appends_witness:
  "records (snd (snd (load_data
     ([''u.json'' \<mapsto> Document (JArr (map Record_dict
         [\<lparr>date = ''2024-05-02'', category = Income, price = 30000, description = ''Salary''\<rparr>]))],
      \<lparr>filepath = ''u.json'',
       records =
        [\<lparr>date = ''2024-05-02'', category = Income, price = 30000, description = ''Salary''\<rparr>]\<rparr>))))
   = [\<lparr>date = ''2024-05-02'', category = Income, price = 30000, description = ''Salary''\<rparr>,
      \<lparr>date = ''2024-05-02'', category = Income, price = 30000, description = ''Salary''\<rparr>]
   \<and> records (snd (snd (load_data (snd (MyCash_init ''u''
     [''u.json'' \<mapsto> Document (JArr (map Record_dict
         [\<lparr>date = ''2024-05-02'', category = Income, price = 30000, description = ''Salary''\<rparr>]))])))))
   = [\<lparr>date = ''2024-05-02'', category = Income, price = 30000, description = ''Salary''\<rparr>,
      \<lparr>date = ''2024-05-02'', category = Income, price = 30000, description = ''Salary''\<rparr>]
   \<and> records (snd (snd (load_data (Map.empty,
      \<lparr>filepath = ''u.json'',
       records =
        [\<lparr>date = ''2024-05-02'', category = Income, price = 30000, description = ''Salary''\<rparr>]\<rparr>))))
   = []"
  using load_data_appends [of
      "[''u.json'' \<mapsto> Document (JArr (map Record_dict
         [\<lparr>date = ''2024-05-02'', category = Income, price = 30000, description = ''Salary''\<rparr>]))]"
      "\<lparr>filepath = ''u.json'',
       records =
        [\<lparr>date = ''2024-05-02'', category = Income, price = 30000, description = ''Salary''\<rparr>]\<rparr>"
      "[\<lparr>date = ''2024-05-02'', category = Income, price = 30000, description = ''Salary''\<rparr>]"
      "''u''"]
    load_data_appends [of Map.empty
      "\<lparr>filepath = ''u.json'',
       records =
        [\<lparr>date = ''2024-05-02'', category = Income, price = 30000, description = ''Salary''\<rparr>]\<rparr>"
      "[]" "''u''"]
  by simp

end
